theory Spec2Isabelle
  imports Main
begin

section \<open>The relay connection of \<open>src/extension/src/relayConnection.ts\<close>\<close>

text \<open>
  The class \<open>RelayConnection\<close> bridges one WebSocket to the \<open>chrome.debugger\<close> API.
  Its methods are asynchronous: each \<open>await\<close> suspends the running method and any other
  callback may run before it resumes. The model is a state machine. The state holds the
  fields of the class, the suspended method activations (one \<open>task\<close> per \<open>await\<close>), and a
  log of every call the class makes on its collaborators. An \<open>event\<close> is one callback
  entering the class: a call by the owner, a WebSocket callback, a Chrome listener firing,
  or the settlement of one awaited promise.
\<close>

subsection \<open>Values of type \<open>any\<close>\<close>

text \<open>
  Values exchanged with the WebSocket and with Chrome are JSON-like. The JavaScript value
  \<open>undefined\<close> is \<open>None\<close> of \<open>json option\<close>; objects are association lists read by first
  match.
\<close>

datatype json =
    JNull
  | JBool bool
  | JNum int
  | JStr string
  | JArr "json list"
  | JObj "(string \<times> json) list"

text \<open>JavaScript truthiness, as used by \<open>!x\<close>, \<open>x && y\<close> and \<open>x || y\<close>.\<close>

fun truthy :: "json option \<Rightarrow> bool" where
  "truthy None = False"
| "truthy (Some JNull) = False"
| "truthy (Some (JBool b)) = b"
| "truthy (Some (JNum n)) = (n \<noteq> 0)"
| "truthy (Some (JStr s)) = (s \<noteq> [])"
| "truthy (Some (JArr xs)) = True"
| "truthy (Some (JObj fs)) = True"

text \<open>\<open>a || b\<close>.\<close>

definition js_or :: "json option \<Rightarrow> json option \<Rightarrow> json option" where
  "js_or a b = (if truthy a then a else b)"

text \<open>\<open>a || d\<close> where \<open>d\<close> is a defined value.\<close>

definition or_else :: "json option \<Rightarrow> json \<Rightarrow> json" where
  "or_else a d = (case a of None \<Rightarrow> d | Some v \<Rightarrow> if truthy (Some v) then v else d)"

text \<open>
  Property read \<open>v?.k\<close>, and \<open>v.k\<close> where \<open>v\<close> is known not to be \<open>null\<close> or
  \<open>undefined\<close>: only an object has the properties read in this file.
\<close>

fun jget :: "string \<Rightarrow> json option \<Rightarrow> json option" where
  "jget k (Some (JObj fs)) = map_of fs k"
| "jget k v = None"

text \<open>Truthiness of an optional number (a tab identifier): \<open>undefined\<close> and \<open>0\<close> are falsy.\<close>

fun tnum :: "int option \<Rightarrow> bool" where
  "tnum None = False"
| "tnum (Some n) = (n \<noteq> 0)"

subsection \<open>Decimal numerals: the template \<open>`tab-${tabId}`\<close> and \<open>parseInt(s, 10)\<close>\<close>

text \<open>The decimal digits; a digit's value is its position.\<close>

definition digits :: string where
  "digits = ''0123456789''"

definition digit_char :: "nat \<Rightarrow> char" where
  "digit_char d = digits ! (d mod 10)"

definition digit_val :: "char \<Rightarrow> nat option" where
  "digit_val c =
     (if c \<in> set digits then Some (length (takeWhile (\<lambda>x. x \<noteq> c) digits)) else None)"

function show_nat :: "nat \<Rightarrow> string" where
  "show_nat n = (if n < 10 then [digit_char n] else show_nat (n div 10) @ [digit_char (n mod 10)])"
  by pat_completeness auto
termination
  by (relation "measure id") auto

declare show_nat.simps [simp del]

text \<open>A tab identifier is an integer; the template prints it in decimal.\<close>

definition show_int :: "int \<Rightarrow> string" where
  "show_int i = (if i < 0 then CHR ''-'' # show_nat (nat (- i)) else show_nat (nat i))"

definition tab_session :: "int \<Rightarrow> string" where
  "tab_session tabId = ''tab-'' @ show_int tabId"

text \<open>
  \<open>parseInt(s, 10)\<close>: leading white space is skipped, one sign is read, then the longest
  run of decimal digits; what follows the digits is ignored. With no digit the result is
  \<open>NaN\<close>, here \<open>None\<close>. Characters are bytes, so only the ASCII white space is modelled.
\<close>

definition is_space :: "char \<Rightarrow> bool" where
  "is_space c = (c = CHR '' '' \<or> c = CHR 0x09 \<or> c = CHR 0x0A \<or> c = CHR 0x0B
                 \<or> c = CHR 0x0C \<or> c = CHR 0x0D)"

fun parse_digits :: "string \<Rightarrow> nat \<Rightarrow> nat" where
  "parse_digits [] acc = acc"
| "parse_digits (c # cs) acc =
     (case digit_val c of None \<Rightarrow> acc | Some d \<Rightarrow> parse_digits cs (10 * acc + d))"

definition parse_unsigned :: "string \<Rightarrow> nat option" where
  "parse_unsigned u =
     (case u of [] \<Rightarrow> None
      | c # cs \<Rightarrow> (case digit_val c of None \<Rightarrow> None | Some d \<Rightarrow> Some (parse_digits u 0)))"

definition parseInt :: "string \<Rightarrow> int option" where
  "parseInt s =
     (case dropWhile is_space s of
        [] \<Rightarrow> None
      | c # cs \<Rightarrow>
          if c = CHR ''-'' then map_option (\<lambda>n. - int n) (parse_unsigned cs)
          else if c = CHR ''+'' then map_option int (parse_unsigned cs)
          else map_option int (parse_unsigned (c # cs)))"

subsection \<open>Data exchanged with the collaborators\<close>

text \<open>\<open>chrome.debugger.DebuggerSession\<close>: the tab and an optional session identifier.\<close>

record dbgSession =
  d_tabId :: "int option"
  d_sessionId :: "string option"

text \<open>The fields of \<open>chrome.tabs.Tab\<close> that the class reads.\<close>

record tab =
  tab_id :: "int option"
  tab_openerTabId :: "int option"
  tab_url :: "string option"
  tab_title :: "string option"

text \<open>\<open>ProtocolCommand\<close>, a parsed inbound message.\<close>

record command =
  cmd_id :: int
  cmd_method :: string
  cmd_params :: "json option"

text \<open>
  What a handler throws. The field \<open>error\<close> of a response is the message of the thrown
  error: \<open>NoTabConnected\<close> is "No tab is connected. Please go to the Playwright MCP
  extension and select the tab you want to connect to.", \<open>TypeError\<close> is the engine's
  message for a failed destructuring or call, \<open>BackendError m\<close> is the message \<open>m\<close> of a
  rejected Chrome call.
\<close>

datatype failure = NoTabConnected | TypeError | BackendError string

text \<open>
  \<open>ProtocolResponse\<close> as it leaves through \<open>JSON.stringify\<close>: a field whose value is
  \<open>undefined\<close> is not in the text, here \<open>None\<close>.
\<close>

record response =
  resp_id :: int
  resp_result :: "json option"
  resp_error :: "failure option"

text \<open>
  The \<open>targetInfo\<close> object literal of \<open>Target.attachedToTarget\<close>: the spread child
  descriptor and the properties written after it, which override it. An override that is
  \<open>undefined\<close> removes the property from the text.
\<close>

record attachedInfo =
  ai_spread :: json
  ai_targetId :: json
  ai_type :: string
  ai_url :: json
  ai_title :: json
  ai_openerId :: "json option"
  ai_browserContextId :: "json option"

datatype outmsg =
    Response response
  | ParseError string
  | ForwardCDPEvent "string option" string "json option"
  | DetachedFromTarget json
  | AttachedToTarget string attachedInfo

text \<open>Every call the class makes on a collaborator, in the order made.\<close>

datatype effect =
    Fx_Attach "int option"
  | Fx_Detach "int option"
  | Fx_SendCommand dbgSession "json option" "json option"
  | Fx_TabsQuery
  | Fx_TabsGet int
  | Fx_SetTimeout int
  | Fx_RemoveListeners
  | Fx_WsClose string
  | Fx_OnClose
  | Fx_Send outmsg

text \<open>
  A suspended activation, one constructor per \<open>await\<close> (and one for the timer of
  \<open>_onTabCreated\<close>). The activations of \<open>_attachToNewTab\<close> carry the tabs that the sweep
  of \<open>_checkForExistingChildTabs\<close> still has to visit once the attach attempt is over
  (\<open>[]\<close> when the attempt was started by the timer).
\<close>

datatype task =
    K_AwaitTab int
  | K_BindAttach int
  | K_BindInfo int
  | K_Detach int int
  | K_Forward int
  | K_Query
  | K_Timer int
  | K_ChildAttach int "tab list"
  | K_ChildInfo int "tab list"
  | K_ChildTab int json "tab list"
  | K_ChildMain int json tab json "tab list"

text \<open>How an awaited promise settles.\<close>

datatype settled =
    V_Any "json option"
  | V_Tabs "tab list"
  | V_Tab "tab option"

datatype reply = Resolved settled | Rejected string

text \<open>
  What arrives on the socket: a text \<open>JSON.parse\<close> rejects, with the parser's message, or
  a command envelope. A text that parses to something else than an envelope is not
  modelled.
\<close>

datatype inbound = Malformed string | Command command

datatype event =
    SetTabId int
  | Close string
  | WsClosed
  | WsMessage inbound
  | DebuggerEvent "int option" "string option" string "json option"
  | DebuggerDetach "int option" string
  | TabCreated tab
  | TabRemoved int
  | Settle nat reply

subsection \<open>The state\<close>

text \<open>
  \<open>childTabs\<close> is the \<open>Set\<close> in insertion order. The key of \<open>tabIdToTargetId\<close> is optional
  because \<open>this._debuggee.tabId!\<close> is used as a key and may be \<open>undefined\<close> at run time.
  \<open>listening\<close> says that the four Chrome listeners are registered, \<open>wsOpen\<close> that
  \<open>readyState\<close> is \<open>OPEN\<close>.
\<close>

record relay =
  debuggee :: "int option"
  tabPromiseResolved :: bool
  closed :: bool
  listening :: bool
  wsOpen :: bool
  childTabs :: "int list"
  tabIdToTargetId :: "int option \<Rightarrow> json option"
  mainTabTargetId :: "json option"
  pending :: "task list"
  trace :: "effect list"

definition init :: relay where
  "init = \<lparr> debuggee = None, tabPromiseResolved = False, closed = False, listening = True,
            wsOpen = True, childTabs = [], tabIdToTargetId = Map.empty,
            mainTabTargetId = None, pending = [], trace = [] \<rparr>"

definition emit :: "effect \<Rightarrow> relay \<Rightarrow> relay" where
  "emit fx s = s\<lparr> trace := trace s @ [fx] \<rparr>"

definition park :: "task \<Rightarrow> relay \<Rightarrow> relay" where
  "park k s = s\<lparr> pending := pending s @ [k] \<rparr>"

definition sendMessage :: "outmsg \<Rightarrow> relay \<Rightarrow> relay" where
  "sendMessage m s = (if wsOpen s then emit (Fx_Send m) s else s)"

definition set_add :: "int \<Rightarrow> int list \<Rightarrow> int list" where
  "set_add x xs = (if x \<in> set xs then xs else xs @ [x])"

definition getTargetInfo :: "json option" where
  "getTargetInfo = Some (JStr ''Target.getTargetInfo'')"

subsection \<open>Teardown: \<open>_onClose\<close> and \<open>close\<close>\<close>

text \<open>
  The loop over \<open>_childTabs\<close>. Each \<open>chrome.debugger.detach\<close> has \<open>.catch(() => {})\<close>:
  the call is logged and nothing waits for it.
\<close>

primrec detachChildren :: "int list \<Rightarrow> relay \<Rightarrow> relay" where
  "detachChildren [] s = s"
| "detachChildren (c # cs) s = detachChildren cs (emit (Fx_Detach (Some c)) s)"

definition onClose :: "relay \<Rightarrow> relay" where
  "onClose s =
     (if closed s then s
      else
        let s1 = s\<lparr> closed := True \<rparr>;
            s2 = emit Fx_RemoveListeners (s1\<lparr> listening := False \<rparr>);
            s3 = detachChildren (childTabs s2) s2;
            s4 = s3\<lparr> childTabs := [], tabIdToTargetId := Map.empty \<rparr>;
            s5 = emit (Fx_Detach (debuggee s4)) s4
        in emit Fx_OnClose s5)"

text \<open>\<open>close(message)\<close>: after \<open>ws.close\<close> the socket is no longer \<open>OPEN\<close>.\<close>

definition close :: "string \<Rightarrow> relay \<Rightarrow> relay" where
  "close message s = onClose ((emit (Fx_WsClose message) s)\<lparr> wsOpen := False \<rparr>)"

subsection \<open>Chrome listeners\<close>

definition onDebuggerEvent ::
  "int option \<Rightarrow> string option \<Rightarrow> string \<Rightarrow> json option \<Rightarrow> relay \<Rightarrow> relay" where
  "onDebuggerEvent srcTab srcSession method params s =
     (if srcTab \<noteq> debuggee s \<and> \<not> (case srcTab of None \<Rightarrow> False | Some t \<Rightarrow> t \<in> set (childTabs s))
      then s
      else
        let sessionId =
              (if srcTab = debuggee s then srcSession
               else (case srcTab of
                       None \<Rightarrow> None
                     | Some t \<Rightarrow> if t \<noteq> 0 \<and> t \<in> set (childTabs s) then Some (tab_session t)
                                else None))
        in sendMessage (ForwardCDPEvent sessionId method params) s)"

text \<open>
  The removal of a child shared by \<open>_onDebuggerDetach\<close> and \<open>_onTabRemoved\<close>, which
  have the same lines.
\<close>

definition dropChild :: "int \<Rightarrow> relay \<Rightarrow> relay" where
  "dropChild t s =
     (let s1 = s\<lparr> childTabs := removeAll t (childTabs s) \<rparr>;
          targetId = or_else (tabIdToTargetId s1 (Some t)) (JStr (tab_session t));
          s2 = s1\<lparr> tabIdToTargetId := (tabIdToTargetId s1)(Some t := None) \<rparr>
      in sendMessage (DetachedFromTarget targetId) s2)"

definition onDebuggerDetach :: "int option \<Rightarrow> string \<Rightarrow> relay \<Rightarrow> relay" where
  "onDebuggerDetach srcTab reason s =
     (if srcTab = debuggee s
      then (close (''Debugger detached: '' @ reason) s)\<lparr> debuggee := None \<rparr>
      else (case srcTab of
              None \<Rightarrow> s
            | Some t \<Rightarrow> if t \<noteq> 0 \<and> t \<in> set (childTabs s) then dropChild t s else s))"

definition onTabRemoved :: "int \<Rightarrow> relay \<Rightarrow> relay" where
  "onTabRemoved t s = (if t \<in> set (childTabs s) then dropChild t s else s)"

definition onTabCreated :: "tab \<Rightarrow> relay \<Rightarrow> relay" where
  "onTabCreated tb s =
     (if \<not> tnum (debuggee s) \<or> \<not> tnum (tab_openerTabId tb)
         \<or> tab_openerTabId tb \<noteq> debuggee s \<or> \<not> tnum (tab_id tb)
      then s
      else (case tab_id tb of
              None \<Rightarrow> s
            | Some t \<Rightarrow> park (K_Timer t) (emit (Fx_SetTimeout t) s)))"

subsection \<open>Child discovery: \<open>_checkForExistingChildTabs\<close> and \<open>_attachToNewTab\<close>\<close>

text \<open>
  \<open>sweep\<close> is the \<open>for\<close> loop of \<open>_checkForExistingChildTabs\<close> from one tab on. It
  stops at the first tab for which \<open>_attachToNewTab\<close> reaches its first \<open>await\<close>; the
  parked activation carries the rest of the loop. \<open>_attachToNewTab\<close> catches everything
  it throws, so the loop goes on whatever the attempt's outcome.
\<close>

fun sweep :: "tab list \<Rightarrow> relay \<Rightarrow> relay" where
  "sweep [] s = s"
| "sweep (tb # tbs) s =
     (case tab_id tb of
        None \<Rightarrow> sweep tbs s
      | Some t \<Rightarrow>
          if t \<noteq> 0 \<and> tab_openerTabId tb = debuggee s
          then (if closed s \<or> t \<in> set (childTabs s) then sweep tbs s
                else park (K_ChildAttach t tbs) (emit (Fx_Attach (Some t)) s))
          else sweep tbs s)"

definition attachToNewTab :: "int \<Rightarrow> tab list \<Rightarrow> relay \<Rightarrow> relay" where
  "attachToNewTab t rest s =
     (if closed s \<or> t \<in> set (childTabs s) then sweep rest s
      else park (K_ChildAttach t rest) (emit (Fx_Attach (Some t)) s))"

definition checkForExistingChildTabs :: "relay \<Rightarrow> relay" where
  "checkForExistingChildTabs s =
     (if \<not> tnum (debuggee s) then s else park K_Query (emit Fx_TabsQuery s))"

subsection \<open>Commands: \<open>_onMessageAsync\<close> and \<open>_handleCommand\<close>\<close>

datatype outcome = Returned "json option" | Thrown failure

text \<open>The end of \<open>_onMessageAsync\<close>: the response is built from the handler's outcome.\<close>

definition respond :: "int \<Rightarrow> outcome \<Rightarrow> relay \<Rightarrow> relay" where
  "respond i oc s =
     sendMessage
       (Response \<lparr> resp_id = i,
                   resp_result = (case oc of Returned r \<Rightarrow> r | Thrown e \<Rightarrow> None),
                   resp_error = (case oc of Returned r \<Rightarrow> None | Thrown e \<Rightarrow> Some e) \<rparr>) s"

text \<open>Lines 188 and 189, run when \<open>_tabPromise\<close> is resolved.\<close>

definition bindAttach :: "int \<Rightarrow> relay \<Rightarrow> relay" where
  "bindAttach i s = park (K_BindAttach i) (emit (Fx_Attach (debuggee s)) s)"

text \<open>
  \<open>x && x.startsWith('tab-')\<close> followed by \<open>parseInt(x.substring(4), 10)\<close>: a falsy \<open>x\<close>
  and a string with another prefix give \<open>Inr None\<close>; a string with the prefix gives the
  parsed number (\<open>NaN\<close> is in no set, so it is \<open>None\<close> as well, but the prefix is
  remembered in the second component); a truthy value that is not a string has no method
  \<open>startsWith\<close> and the call throws.
\<close>

definition tabPrefix :: "json option \<Rightarrow> failure + (string \<times> int option) option" where
  "tabPrefix x =
     (if \<not> truthy x then Inr None
      else (case x of
              Some (JStr str) \<Rightarrow>
                if take 4 str = ''tab-'' then Inr (Some (str, parseInt (drop 4 str)))
                else Inr None
            | _ \<Rightarrow> Inl TypeError))"

text \<open>Lines 233 to 265: the \<open>DebuggerSession\<close> a forwarded command is sent to.\<close>

definition resolveSession :: "relay \<Rightarrow> json option \<Rightarrow> failure + dbgSession" where
  "resolveSession s sessionId =
     (case tabPrefix sessionId of
        Inl e \<Rightarrow> Inl e
      | Inr None \<Rightarrow> Inr \<lparr> d_tabId = debuggee s, d_sessionId = None \<rparr>
      | Inr (Some (str, n)) \<Rightarrow>
          (case n of
             None \<Rightarrow> Inr \<lparr> d_tabId = debuggee s, d_sessionId = Some str \<rparr>
           | Some c \<Rightarrow>
               if c \<in> set (childTabs s) then Inr \<lparr> d_tabId = Some c, d_sessionId = None \<rparr>
               else Inr \<lparr> d_tabId = debuggee s, d_sessionId = Some str \<rparr>))"

definition detachFromTarget :: "json option" where
  "detachFromTarget = Some (JStr ''Target.detachFromTarget'')"

text \<open>Lines 204 to 272, for the value \<open>p\<close> of \<open>message.params\<close>.\<close>

definition forwardCDPCommand :: "int \<Rightarrow> json option \<Rightarrow> relay \<Rightarrow> relay" where
  "forwardCDPCommand i p s =
     (if p = None \<or> p = Some JNull then respond i (Thrown TypeError) s
      else
        let sessionId = jget ''sessionId'' p;
            method = jget ''method'' p;
            params = jget ''params'' p;
            toMain = park (K_Forward i)
                       (emit (Fx_SendCommand \<lparr> d_tabId = debuggee s, d_sessionId = None \<rparr>
                                method params) s)
        in
          if method = detachFromTarget then
            (case tabPrefix (jget ''sessionId'' (if truthy params then params else Some (JObj []))) of
               Inl e \<Rightarrow> respond i (Thrown e) s
             | Inr None \<Rightarrow> toMain
             | Inr (Some (str, n)) \<Rightarrow>
                 (case n of
                    None \<Rightarrow> toMain
                  | Some c \<Rightarrow>
                      if c \<in> set (childTabs s)
                      then park (K_Detach i c) (emit (Fx_Detach (Some c)) s)
                      else toMain))
          else
            (case resolveSession s sessionId of
               Inl e \<Rightarrow> respond i (Thrown e) s
             | Inr d \<Rightarrow> park (K_Forward i) (emit (Fx_SendCommand d method params) s)))"

definition handleCommand :: "command \<Rightarrow> relay \<Rightarrow> relay" where
  "handleCommand m s =
     (if cmd_method m = ''attachToTab'' then
        (if tabPromiseResolved s then bindAttach (cmd_id m) s
         else park (K_AwaitTab (cmd_id m)) s)
      else if \<not> tnum (debuggee s) then respond (cmd_id m) (Thrown NoTabConnected) s
      else if cmd_method m = ''forwardCDPCommand'' then
        forwardCDPCommand (cmd_id m) (cmd_params m) s
      else respond (cmd_id m) (Returned None) s)"

definition onMessage :: "inbound \<Rightarrow> relay \<Rightarrow> relay" where
  "onMessage x s =
     (case x of
        Malformed why \<Rightarrow> sendMessage (ParseError (''Error parsing message: '' @ why)) s
      | Command m \<Rightarrow> handleCommand m s)"

subsection \<open>\<open>setTabId\<close>\<close>

text \<open>
  Resolving \<open>_tabPromise\<close> queues the activations of \<open>attachToTab\<close> that wait for it; they
  run once the synchronous part of \<open>setTabId\<close> is over, in the order they were parked.
\<close>

fun release :: "task list \<Rightarrow> relay \<Rightarrow> relay" where
  "release [] s = s"
| "release (K_AwaitTab i # ks) s = release ks (bindAttach i s)"
| "release (k # ks) s = release ks s"

fun isAwaitTab :: "task \<Rightarrow> bool" where
  "isAwaitTab (K_AwaitTab i) = True"
| "isAwaitTab k = False"

definition setTabId :: "int \<Rightarrow> relay \<Rightarrow> relay" where
  "setTabId t s =
     (let s1 = s\<lparr> debuggee := Some t, tabPromiseResolved := True \<rparr>;
          s2 = checkForExistingChildTabs s1;
          waiting = filter isAwaitTab (pending s2);
          s3 = s2\<lparr> pending := filter (\<lambda>k. \<not> isAwaitTab k) (pending s2) \<rparr>
      in release waiting s3)"

subsection \<open>Resuming after an \<open>await\<close>\<close>

text \<open>
  \<open>resume k r s\<close> runs the activation \<open>k\<close> from its \<open>await\<close>, settled with \<open>r\<close>, up to
  its next \<open>await\<close> or its end. It is \<open>None\<close> when \<open>r\<close> is not a settlement the awaited
  call can have; \<open>K_AwaitTab\<close> is resumed by \<open>setTabId\<close> only, and a timer cannot fail.
\<close>

fun resume :: "task \<Rightarrow> reply \<Rightarrow> relay \<Rightarrow> relay option" where
  "resume (K_AwaitTab i) r s = None"
| "resume (K_BindAttach i) (Resolved v) s =
     Some (park (K_BindInfo i)
            (emit (Fx_SendCommand \<lparr> d_tabId = debuggee s, d_sessionId = None \<rparr>
                     getTargetInfo None) s))"
| "resume (K_BindAttach i) (Rejected e) s = Some (respond i (Thrown (BackendError e)) s)"
| "resume (K_BindInfo i) (Resolved (V_Any res)) s =
     (let targetInfo = jget ''targetInfo'' res;
          s1 = (case jget ''targetId'' targetInfo of
                  None \<Rightarrow> s
                | Some tid \<Rightarrow>
                    if truthy (Some tid)
                    then s\<lparr> mainTabTargetId := Some tid,
                            tabIdToTargetId := (tabIdToTargetId s)(debuggee s \<mapsto> tid) \<rparr>
                    else s)
      in Some (respond i
                 (Returned (Some (JObj (case targetInfo of
                                          None \<Rightarrow> []
                                        | Some ti \<Rightarrow> [(''targetInfo'', ti)])))) s1))"
| "resume (K_BindInfo i) (Resolved v) s = None"
| "resume (K_BindInfo i) (Rejected e) s = Some (respond i (Thrown (BackendError e)) s)"
| "resume (K_Detach i c) (Resolved v) s =
     Some (respond i (Returned (Some (JObj [])))
            (s\<lparr> childTabs := removeAll c (childTabs s),
                tabIdToTargetId := (tabIdToTargetId s)(Some c := None) \<rparr>))"
| "resume (K_Detach i c) (Rejected e) s = Some (respond i (Thrown (BackendError e)) s)"
| "resume (K_Forward i) (Resolved (V_Any res)) s = Some (respond i (Returned res) s)"
| "resume (K_Forward i) (Resolved v) s = None"
| "resume (K_Forward i) (Rejected e) s = Some (respond i (Thrown (BackendError e)) s)"
| "resume K_Query (Resolved (V_Tabs tabs)) s = Some (sweep tabs s)"
| "resume K_Query (Resolved v) s = None"
| "resume K_Query (Rejected e) s = Some s"
| "resume (K_Timer t) (Resolved v) s = Some (attachToNewTab t [] s)"
| "resume (K_Timer t) (Rejected e) s = None"
| "resume (K_ChildAttach t rest) (Resolved v) s =
     Some (park (K_ChildInfo t rest)
            (emit (Fx_SendCommand \<lparr> d_tabId = Some t, d_sessionId = None \<rparr> getTargetInfo None)
               (s\<lparr> childTabs := set_add t (childTabs s) \<rparr>)))"
| "resume (K_ChildAttach t rest) (Rejected e) s = Some (sweep rest s)"
| "resume (K_ChildInfo t rest) (Resolved (V_Any res)) s =
     (case jget ''targetInfo'' res of
        None \<Rightarrow> Some (sweep rest s)
      | Some ti \<Rightarrow>
          if \<not> truthy (Some ti) then Some (sweep rest s)
          else Some (park (K_ChildTab t ti rest) (emit (Fx_TabsGet t) s)))"
| "resume (K_ChildInfo t rest) (Resolved v) s = None"
| "resume (K_ChildInfo t rest) (Rejected e) s = Some (sweep rest s)"
| "resume (K_ChildTab t ti rest) (Resolved (V_Tab None)) s = Some (sweep rest s)"
| "resume (K_ChildTab t ti rest) (Resolved (V_Tab (Some tb))) s =
     (if \<not> tnum (debuggee s) then Some (sweep rest s)
      else
        let actualTargetId = or_else (jget ''targetId'' (Some ti)) (JStr (tab_session t));
            s1 = s\<lparr> tabIdToTargetId := (tabIdToTargetId s)(Some t \<mapsto> actualTargetId) \<rparr>
        in Some (park (K_ChildMain t ti tb actualTargetId rest)
                  (emit (Fx_SendCommand \<lparr> d_tabId = debuggee s1, d_sessionId = None \<rparr>
                           getTargetInfo None) s1)))"
| "resume (K_ChildTab t ti rest) (Resolved v) s = None"
| "resume (K_ChildTab t ti rest) (Rejected e) s = Some (sweep rest s)"
| "resume (K_ChildMain t ti tb actualTargetId rest) (Resolved (V_Any res)) s =
     (let mainTabTargetInfo = jget ''targetInfo'' res;
          openerId = js_or (mainTabTargetId s) (jget ''targetId'' mainTabTargetInfo);
          info = \<lparr> ai_spread = ti,
                   ai_targetId = actualTargetId,
                   ai_type = ''page'',
                   ai_url = or_else (js_or (map_option JStr (tab_url tb)) (jget ''url'' (Some ti)))
                              (JStr []),
                   ai_title = or_else (js_or (map_option JStr (tab_title tb))
                                          (jget ''title'' (Some ti))) (JStr []),
                   ai_openerId = openerId,
                   ai_browserContextId =
                     js_or (jget ''browserContextId'' mainTabTargetInfo)
                           (jget ''browserContextId'' (Some ti)) \<rparr>
      in Some (sweep rest (sendMessage (AttachedToTarget (tab_session t) info) s)))"
| "resume (K_ChildMain t ti tb actualTargetId rest) (Resolved v) s = None"
| "resume (K_ChildMain t ti tb actualTargetId rest) (Rejected e) s = Some (sweep rest s)"

subsection \<open>One event, and a run\<close>

text \<open>
  A message is delivered only while the socket is \<open>OPEN\<close>, a Chrome notification only
  while the listeners are registered. \<open>Settle n r\<close> settles the promise awaited by the
  \<open>n\<close>-th suspended activation.
\<close>

definition settle :: "nat \<Rightarrow> reply \<Rightarrow> relay \<Rightarrow> relay" where
  "settle n r s =
     (if n < length (pending s)
      then (case resume (pending s ! n) r
                   (s\<lparr> pending := take n (pending s) @ drop (Suc n) (pending s) \<rparr>) of
              None \<Rightarrow> s
            | Some s' \<Rightarrow> s')
      else s)"

fun step :: "event \<Rightarrow> relay \<Rightarrow> relay" where
  "step (SetTabId t) s = setTabId t s"
| "step (Close message) s = close message s"
| "step WsClosed s = onClose (s\<lparr> wsOpen := False \<rparr>)"
| "step (WsMessage x) s = (if wsOpen s then onMessage x s else s)"
| "step (DebuggerEvent srcTab srcSession method params) s =
     (if listening s then onDebuggerEvent srcTab srcSession method params s else s)"
| "step (DebuggerDetach srcTab reason) s =
     (if listening s then onDebuggerDetach srcTab reason s else s)"
| "step (TabCreated tb) s = (if listening s then onTabCreated tb s else s)"
| "step (TabRemoved t) s = (if listening s then onTabRemoved t s else s)"
| "step (Settle n r) s = settle n r s"

fun run :: "event list \<Rightarrow> relay \<Rightarrow> relay" where
  "run [] s = s"
| "run (e # es) s = run es (step e s)"

subsection \<open>Observations on runs\<close>

text \<open>The request identifier a suspended command handler will answer with.\<close>

fun task_id :: "task \<Rightarrow> int option" where
  "task_id (K_AwaitTab i) = Some i"
| "task_id (K_BindAttach i) = Some i"
| "task_id (K_BindInfo i) = Some i"
| "task_id (K_Detach i c) = Some i"
| "task_id (K_Forward i) = Some i"
| "task_id k = None"

text \<open>A response answers a request of \<open>I\<close> and does not carry both fields.\<close>

definition respOk :: "int set \<Rightarrow> response \<Rightarrow> bool" where
  "respOk I r = (resp_id r \<in> I \<and> \<not> (resp_result r \<noteq> None \<and> resp_error r \<noteq> None))"

text \<open>The effects any code other than \<open>_onClose\<close> may have, given the request identifiers \<open>I\<close> received so far.\<close>

definition quietFx :: "int set \<Rightarrow> effect \<Rightarrow> bool" where
  "quietFx I fx = (fx \<noteq> Fx_OnClose \<and> fx \<noteq> Fx_RemoveListeners
                   \<and> (\<forall>r. fx = Fx_Send (Response r) \<longrightarrow> respOk I r))"

definition taskOk :: "int set \<Rightarrow> task \<Rightarrow> bool" where
  "taskOk I k = (\<forall>i. task_id k = Some i \<longrightarrow> i \<in> I)"

text \<open>\<open>calm I s s'\<close>: from \<open>s\<close> to \<open>s'\<close> the session was not torn down, the log grew by quiet effects only and every new suspended handler answers a request of \<open>I\<close>.\<close>

definition calm :: "int set \<Rightarrow> relay \<Rightarrow> relay \<Rightarrow> bool" where
  "calm I s s' = (closed s' = closed s \<and> listening s' = listening s
     \<and> (\<exists>fx. trace s' = trace s @ fx \<and> list_all (quietFx I) fx)
     \<and> (\<forall>k \<in> set (pending s'). k \<in> set (pending s) \<or> taskOk I k))"






text \<open>The attaches a run may still make on the tab \<open>t\<close>: the entries for \<open>t\<close> a sweep has yet to visit, and what each suspended activation may still attach.\<close>

definition sweep_owed :: "int \<Rightarrow> tab list \<Rightarrow> nat" where
  "sweep_owed t tbs = length (filter (\<lambda>tb. tab_id tb = Some t) tbs)"

fun owed :: "int \<Rightarrow> task \<Rightarrow> nat" where
  "owed t (K_AwaitTab i) = 1"
| "owed t (K_Timer u) = (if u = t then 1 else 0)"
| "owed t (K_ChildAttach u rest) = sweep_owed t rest"
| "owed t (K_ChildInfo u rest) = sweep_owed t rest"
| "owed t (K_ChildTab u ti rest) = sweep_owed t rest"
| "owed t (K_ChildMain u ti tb a rest) = sweep_owed t rest"
| "owed t k = 0"

text \<open>The calls of \<open>chrome.debugger.attach\<close> on the tab \<open>t\<close> so far, and with those still owed.\<close>

definition attaches :: "int \<Rightarrow> relay \<Rightarrow> nat" where
  "attaches t s = count_list (trace s) (Fx_Attach (Some t))"

definition potential :: "int \<Rightarrow> relay \<Rightarrow> nat" where
  "potential t s = attaches t s + sum_list (map (owed t) (pending s))"

text \<open>What an event can add: an \<open>attachToTab\<close> command, and the reports of the tab \<open>t\<close> by the host (a created tab, an entry of the answer to \<open>chrome.tabs.query\<close>).\<close>

fun is_bind :: "event \<Rightarrow> bool" where
  "is_bind (WsMessage (Command m)) = (cmd_method m = ''attachToTab'')"
| "is_bind e = False"

fun found :: "int \<Rightarrow> event \<Rightarrow> nat" where
  "found t (TabCreated tb) = (if tab_id tb = Some t then 1 else 0)"
| "found t (Settle n (Resolved (V_Tabs tabs))) = sweep_owed t tabs"
| "found t e = 0"

definition binds :: "event list \<Rightarrow> nat" where
  "binds evs = length (filter is_bind evs)"

definition discovered :: "int \<Rightarrow> event list \<Rightarrow> nat" where
  "discovered t evs = sum_list (map (found t) evs)"

text \<open>
  A session in which no tab was ever selected: \<open>selects\<close> are the events that select one,
  \<open>idleFx\<close> the effects such a session can have, \<open>unbound\<close> its states.
\<close>

fun selects :: "event \<Rightarrow> bool" where
  "selects (SetTabId t) = True"
| "selects e = False"

fun idleFx :: "effect \<Rightarrow> bool" where
  "idleFx (Fx_Send (Response r)) = (resp_result r = None \<and> resp_error r = Some NoTabConnected)"
| "idleFx (Fx_Send m) = True"
| "idleFx (Fx_Detach d) = (d = None)"
| "idleFx Fx_RemoveListeners = True"
| "idleFx (Fx_WsClose message) = True"
| "idleFx Fx_OnClose = True"
| "idleFx fx = False"

definition unbound :: "relay \<Rightarrow> bool" where
  "unbound s = (debuggee s = None \<and> \<not> tabPromiseResolved s \<and> childTabs s = []
     \<and> list_all isAwaitTab (pending s) \<and> list_all idleFx (trace s))"

section \<open>Properties\<close>

subsection \<open>Decimal numerals\<close>

lemma digit_cases:
  assumes "d < (10::nat)"
  shows "d = 0 \<or> d = 1 \<or> d = 2 \<or> d = 3 \<or> d = 4 \<or> d = 5 \<or> d = 6 \<or> d = 7 \<or> d = 8 \<or> d = 9"
  using assms by arith

lemma digit_char_mod: "digit_char (d mod 10) = digit_char d"
  by (simp add: digit_char_def)

lemma digit_val_digit_char: "d < 10 \<Longrightarrow> digit_val (digit_char d) = Some d"
  by (drule digit_cases) (auto simp: digit_val_def digit_char_def digits_def)

lemma digit_char_in_digits: "digit_char d \<in> set digits"
proof -
  have "d mod 10 < 10" by simp
  then have "digit_char (d mod 10) \<in> set digits"
    by (drule_tac digit_cases) (auto simp: digit_char_def digits_def)
  then show ?thesis by (simp add: digit_char_mod)
qed

lemma digit_char_not_space: "\<not> is_space (digit_char d)"
  using digit_char_in_digits [of d] by (auto simp: is_space_def digits_def)

lemma digit_char_not_sign: "digit_char d \<noteq> CHR ''-''" "digit_char d \<noteq> CHR ''+''"
  using digit_char_in_digits [of d] by (auto simp: digits_def)

lemma parse_digits_append:
  "\<forall>c \<in> set xs. digit_val c \<noteq> None \<Longrightarrow> d < 10
   \<Longrightarrow> parse_digits (xs @ [digit_char d]) acc = 10 * parse_digits xs acc + d"
  by (induction xs arbitrary: acc) (auto simp: digit_val_digit_char split: option.splits)

lemma show_nat_digits: "\<forall>c \<in> set (show_nat n). digit_val c \<noteq> None"
proof (induction n rule: show_nat.induct)
  case (1 n)
  show ?case
  proof (cases "n < 10")
    case True
    then show ?thesis by (subst show_nat.simps) (simp add: digit_val_digit_char)
  next
    case False
    with 1 show ?thesis
      by (subst show_nat.simps) (simp add: digit_val_digit_char)
  qed
qed

lemma parse_digits_show_nat: "parse_digits (show_nat n) 0 = n"
proof (induction n rule: show_nat.induct)
  case (1 n)
  show ?case
  proof (cases "n < 10")
    case True
    then show ?thesis by (subst show_nat.simps) (simp add: digit_val_digit_char)
  next
    case False
    with 1 have "parse_digits (show_nat (n div 10)) 0 = n div 10" by simp
    with False show ?thesis
      by (subst show_nat.simps) (simp add: parse_digits_append show_nat_digits)
  qed
qed

lemma show_nat_head: "\<exists>d cs. d < 10 \<and> show_nat n = digit_char d # cs"
proof (induction n rule: show_nat.induct)
  case (1 n)
  show ?case
  proof (cases "n < 10")
    case True
    then show ?thesis by (subst show_nat.simps) auto
  next
    case False
    with 1 obtain d cs where "d < 10" "show_nat (n div 10) = digit_char d # cs" by auto
    with False show ?thesis by (subst show_nat.simps) auto
  qed
qed

lemma parse_unsigned_show_nat: "parse_unsigned (show_nat n) = Some n"
proof -
  obtain d cs where d: "d < 10" "show_nat n = digit_char d # cs"
    using show_nat_head by blast
  have "parse_digits (show_nat n) 0 = n" by (rule parse_digits_show_nat)
  with d show ?thesis
    by (simp add: parse_unsigned_def digit_val_digit_char)
qed

lemma parseInt_show_int: "parseInt (show_int i) = Some i"
proof (cases "i < 0")
  case True
  then show ?thesis
    by (simp add: parseInt_def show_int_def is_space_def parse_unsigned_show_nat)
next
  case False
  obtain d cs where d: "d < 10" "show_nat (nat i) = digit_char d # cs"
    using show_nat_head by blast
  have "parse_unsigned (digit_char d # cs) = Some (nat i)"
    using parse_unsigned_show_nat [of "nat i"] d by simp
  with False d show ?thesis
    by (simp add: parseInt_def show_int_def digit_char_not_space digit_char_not_sign)
qed

lemma tabPrefix_tab_session:
  "tabPrefix (Some (JStr (tab_session c))) = Inr (Some (tab_session c, Some c))"
  by (simp add: tabPrefix_def tab_session_def parseInt_show_int)

subsection \<open>Quiet steps\<close>













lemma calm_mono: "calm I s s' \<Longrightarrow> I \<subseteq> I' \<Longrightarrow> calm I' s s'"
  unfolding calm_def quietFx_def taskOk_def respOk_def list_all_iff
  by (elim conjE exE, intro conjI; blast)
















lemma detachChildren_eq:
  "detachChildren cs s = s\<lparr> trace := trace s @ map (\<lambda>c. Fx_Detach (Some c)) cs \<rparr>"
  by (induction cs arbitrary: s) (simp_all add: emit_def)

lemma onClose_open:
  "\<not> closed s \<Longrightarrow>
   onClose s = s\<lparr> closed := True, listening := False, childTabs := [],
                  tabIdToTargetId := Map.empty,
                  trace := trace s @ Fx_RemoveListeners # map (\<lambda>c. Fx_Detach (Some c)) (childTabs s)
                             @ [Fx_Detach (debuggee s), Fx_OnClose] \<rparr>"
  by (simp add: onClose_def Let_def detachChildren_eq emit_def)


lemma count_list_detaches [simp]:
  "count_list (map (\<lambda>c. Fx_Detach (Some c)) cs) Fx_OnClose = 0"
  "count_list (map (\<lambda>c. Fx_Detach (Some c)) cs) Fx_RemoveListeners = 0"
  by (induction cs) simp_all

















subsection \<open>Evaluating a run\<close>

lemmas show_defs = tab_session_def show_int_def show_nat.simps digit_char_def digits_def


lemmas run_defs = init_def emit_def park_def sendMessage_def set_add_def getTargetInfo_def
  onClose_def close_def onDebuggerEvent_def dropChild_def onDebuggerDetach_def onTabRemoved_def
  onTabCreated_def attachToNewTab_def checkForExistingChildTabs_def respond_def bindAttach_def
  tabPrefix_def resolveSession_def detachFromTarget_def forwardCDPCommand_def handleCommand_def
  onMessage_def setTabId_def settle_def Let_def

subsection \<open>Resolving a session identifier\<close>

lemma jget_Some_obj: "jget k p = Some v \<Longrightarrow> \<exists>fs. p = Some (JObj fs)"
  by (cases "(k, p)" rule: jget.cases) simp_all




lemma sweep_keeps [simp]:
  "childTabs (sweep tbs s) = childTabs s"
  "tabIdToTargetId (sweep tbs s) = tabIdToTargetId s"
  by (induction tbs) (simp_all add: park_def emit_def split: option.split)

subsection \<open>Counting the attaches\<close>

lemma potential_emit [simp]:
  "potential t (emit fx s) = potential t s + (if fx = Fx_Attach (Some t) then 1 else 0)"
  by (simp add: potential_def attaches_def emit_def)

lemma potential_park [simp]: "potential t (park k s) = potential t s + owed t k"
  by (simp add: potential_def attaches_def park_def)

lemma potential_upd [simp]:
  "potential t (s\<lparr> childTabs := c \<rparr>) = potential t s"
  "potential t (s\<lparr> tabIdToTargetId := m \<rparr>) = potential t s"
  "potential t (s\<lparr> mainTabTargetId := x \<rparr>) = potential t s"
  "potential t (s\<lparr> debuggee := d \<rparr>) = potential t s"
  "potential t (s\<lparr> tabPromiseResolved := b \<rparr>) = potential t s"
  "potential t (s\<lparr> wsOpen := b \<rparr>) = potential t s"
  "potential t (s\<lparr> closed := b \<rparr>) = potential t s"
  "potential t (s\<lparr> listening := b \<rparr>) = potential t s"
  by (simp_all add: potential_def attaches_def)

lemma potential_sendMessage [simp]: "potential t (sendMessage m s) = potential t s"
  by (simp add: sendMessage_def)

lemma potential_respond [simp]: "potential t (respond i oc s) = potential t s"
  by (simp add: respond_def)

lemma sweep_Cons_cases:
  "sweep (tb # tbs) s = sweep tbs s
   \<or> (\<exists>u. tab_id tb = Some u
           \<and> sweep (tb # tbs) s = park (K_ChildAttach u tbs) (emit (Fx_Attach (Some u)) s))"
  by (simp split: option.split)

lemma sweep_owed_Cons:
  "sweep_owed t (tb # tbs) = (if tab_id tb = Some t then 1 else 0) + sweep_owed t tbs"
  by (simp add: sweep_owed_def)

lemma potential_sweep: "potential t (sweep tbs s) \<le> potential t s + sweep_owed t tbs"
proof (induction tbs)
  case Nil
  show ?case by simp
next
  case (Cons tb tbs)
  from sweep_Cons_cases [of tb tbs s] show ?case
  proof
    assume "sweep (tb # tbs) s = sweep tbs s"
    with Cons show ?thesis by (simp add: sweep_owed_Cons)
  next
    assume "\<exists>u. tab_id tb = Some u
      \<and> sweep (tb # tbs) s = park (K_ChildAttach u tbs) (emit (Fx_Attach (Some u)) s)"
    then obtain u where "tab_id tb = Some u"
      and "sweep (tb # tbs) s = park (K_ChildAttach u tbs) (emit (Fx_Attach (Some u)) s)"
      by blast
    then show ?thesis by (simp add: sweep_owed_Cons)
  qed
qed

lemma potential_attachToNewTab:
  "potential t (attachToNewTab u rest s) \<le> potential t s + (if u = t then 1 else 0) + sweep_owed t rest"
  using potential_sweep [of t rest s] by (simp add: attachToNewTab_def)

lemma potential_resume:
  "resume k r s = Some s' \<Longrightarrow> potential t s' \<le> potential t s + owed t k + found t (Settle n r)"
proof (induction k r s rule: resume.induct)
  case (12 tabs s)
  then show ?case using potential_sweep [of t tabs s] by auto
next
  case (15 u v s)
  then show ?case using potential_attachToNewTab [of t u "[]" s] by (auto simp: sweep_owed_def)
next
  case (18 u rest e s)
  then show ?case using potential_sweep [of t rest s] by auto
next
  case (19 u rest res s)
  then show ?case using potential_sweep [of t rest s] by (auto split: option.splits if_splits)
next
  case (21 u rest e s)
  then show ?case using potential_sweep [of t rest s] by auto
next
  case (22 u ti rest s)
  then show ?case using potential_sweep [of t rest s] by auto
next
  case (23 u ti rest tb s)
  then show ?case using potential_sweep [of t rest s] by (auto simp: Let_def split: if_splits)
next
  case (25 u ti rest e s)
  then show ?case using potential_sweep [of t rest s] by auto
next
  case (26 u ti tb a rest res s)
  then show ?case
    using potential_sweep [of t rest "sendMessage (AttachedToTarget (tab_session u) info) s" for info]
    by (auto simp: Let_def)
next
  case (28 u ti tb a rest e s)
  then show ?case using potential_sweep [of t rest s] by auto
qed (auto simp: Let_def split: option.splits if_splits)

lemma sum_owed_remove:
  "n < length ks \<Longrightarrow>
   sum_list (map (owed t) (take n ks @ drop (Suc n) ks)) + owed t (ks ! n) = sum_list (map (owed t) ks)"
proof -
  assume "n < length ks"
  then have "ks = take n ks @ ks ! n # drop (Suc n) ks"
    by (simp add: id_take_nth_drop)
  then have "sum_list (map (owed t) ks)
      = sum_list (map (owed t) (take n ks @ ks ! n # drop (Suc n) ks))"
    by simp
  then show ?thesis by simp
qed

lemma potential_settle: "potential t (settle n r s) \<le> potential t s + found t (Settle n r)"
proof (cases "n < length (pending s)")
  case False
  then show ?thesis by (simp add: settle_def)
next
  case True
  let ?s0 = "s\<lparr> pending := take n (pending s) @ drop (Suc n) (pending s) \<rparr>"
  have p0: "potential t ?s0 + owed t (pending s ! n) = potential t s"
    using sum_owed_remove [OF True, of t] by (simp add: potential_def attaches_def)
  show ?thesis
  proof (cases "resume (pending s ! n) r ?s0")
    case None
    with True show ?thesis by (simp add: settle_def)
  next
    case (Some s')
    from potential_resume [OF Some, of t n] p0
    have "potential t s' \<le> potential t s + found t (Settle n r)" by simp
    with True Some show ?thesis by (simp add: settle_def)
  qed
qed

lemma potential_bindAttach: "potential t (bindAttach i s) \<le> potential t s + 1"
  by (simp add: bindAttach_def)

lemma potential_release:
  "potential t (release ks s) \<le> potential t s + length (filter isAwaitTab ks)"
proof (induction ks s rule: release.induct)
  case (2 i ks s)
  from 2 potential_bindAttach [of t i s] show ?case by simp
qed simp_all

lemma sum_owed_filter:
  "sum_list (map (owed t) (filter (\<lambda>k. \<not> isAwaitTab k) ks)) + length (filter isAwaitTab ks)
     = sum_list (map (owed t) ks)"
proof (induction ks)
  case Nil
  show ?case by simp
next
  case (Cons k ks)
  then show ?case by (cases k) simp_all
qed

lemma isAwaitTab_filter [simp]: "filter isAwaitTab (filter isAwaitTab ks) = filter isAwaitTab ks"
  by simp

lemma potential_setTabId: "potential t (setTabId u s) \<le> potential t s"
proof -
  let ?s2 = "checkForExistingChildTabs (s\<lparr> debuggee := Some u, tabPromiseResolved := True \<rparr>)"
  let ?s3 = "?s2\<lparr> pending := filter (\<lambda>k. \<not> isAwaitTab k) (pending ?s2) \<rparr>"
  have p2: "potential t ?s2 = potential t s"
    by (simp add: checkForExistingChildTabs_def)
  have "potential t ?s3 + length (filter isAwaitTab (pending ?s2)) = potential t ?s2"
    using sum_owed_filter [of t "pending ?s2"] by (simp add: potential_def attaches_def)
  with p2 potential_release [of t "filter isAwaitTab (pending ?s2)" ?s3]
  show ?thesis by (simp add: setTabId_def Let_def)
qed

lemma potential_forwardCDPCommand: "potential t (forwardCDPCommand i p s) = potential t s"
  unfolding forwardCDPCommand_def Let_def
  by (simp split: sum.split option.split prod.split)

lemma potential_handleCommand:
  "potential t (handleCommand m s) \<le> potential t s + (if cmd_method m = ''attachToTab'' then 1 else 0)"
  using potential_bindAttach [of t "cmd_id m" s]
  by (simp add: handleCommand_def potential_forwardCDPCommand)

lemma potential_onMessage:
  "potential t (onMessage x s) \<le> potential t s + (if is_bind (WsMessage x) then 1 else 0)"
  using potential_handleCommand [of t _ s]
  by (cases x) (simp_all add: onMessage_def)

lemma potential_detachChildren [simp]: "potential t (detachChildren cs s) = potential t s"
  by (induction cs arbitrary: s) simp_all

lemma potential_onClose [simp]: "potential t (onClose s) = potential t s"
  by (simp add: onClose_def Let_def)

lemma potential_close [simp]: "potential t (close message s) = potential t s"
  by (simp add: close_def)

lemma potential_dropChild [simp]: "potential t (dropChild u s) = potential t s"
  by (simp add: dropChild_def Let_def)

lemma potential_onDebuggerDetach [simp]: "potential t (onDebuggerDetach src why s) = potential t s"
  by (simp add: onDebuggerDetach_def split: option.split)

lemma potential_onDebuggerEvent [simp]: "potential t (onDebuggerEvent a b c d s) = potential t s"
  by (simp add: onDebuggerEvent_def Let_def)

lemma potential_onTabRemoved [simp]: "potential t (onTabRemoved u s) = potential t s"
  by (simp add: onTabRemoved_def)

lemma potential_onTabCreated:
  "potential t (onTabCreated tb s) \<le> potential t s + found t (TabCreated tb)"
  by (simp add: onTabCreated_def split: option.split)

lemma potential_step:
  "potential t (step e s) \<le> potential t s + (if is_bind e then 1 else 0) + found t e"
proof (cases e)
  case (SetTabId u)
  with potential_setTabId [of t u s] show ?thesis by (simp split: if_splits)
next
  case (WsMessage x)
  with potential_onMessage [of t x s] show ?thesis by (simp split: if_splits)
next
  case (TabCreated tb)
  with potential_onTabCreated [of t tb s] show ?thesis by (simp split: if_splits)
next
  case (Settle n r)
  with potential_settle [of t n r s] show ?thesis by (simp split: if_splits)
qed simp_all

lemma potential_run:
  "potential t (run evs s) \<le> potential t s + binds evs + discovered t evs"
proof (induction evs arbitrary: s)
  case Nil
  show ?case by (simp add: binds_def discovered_def)
next
  case (Cons e es)
  from Cons [of "step e s"] potential_step [of t e s]
  show ?case by (simp add: binds_def discovered_def split: if_splits)
qed

subsection \<open>Before a tab is selected\<close>

lemma unbound_onClose: "unbound s \<Longrightarrow> unbound (onClose s)"
  by (simp add: unbound_def onClose_def Let_def emit_def)

lemma unbound_close: "unbound s \<Longrightarrow> unbound (close message s)"
  unfolding close_def by (rule unbound_onClose) (simp add: unbound_def emit_def)

lemma unbound_handleCommand: "unbound s \<Longrightarrow> unbound (handleCommand m s)"
  by (simp add: unbound_def handleCommand_def park_def respond_def sendMessage_def emit_def)

lemma unbound_onMessage: "unbound s \<Longrightarrow> unbound (onMessage x s)"
  by (cases x) (simp_all add: onMessage_def unbound_handleCommand,
      simp add: unbound_def sendMessage_def emit_def)

lemma resume_AwaitTab: "isAwaitTab k \<Longrightarrow> resume k r s = None"
  by (cases k) simp_all

lemma unbound_settle: "unbound s \<Longrightarrow> settle n r s = s"
  by (simp add: settle_def unbound_def list_all_length resume_AwaitTab)

lemma unbound_step: "unbound s \<Longrightarrow> \<not> selects e \<Longrightarrow> unbound (step e s)"
proof (cases e)
  case (DebuggerEvent a b c d)
  assume "unbound s"
  with DebuggerEvent show ?thesis
    by (simp add: onDebuggerEvent_def Let_def unbound_def sendMessage_def emit_def)
next
  case (DebuggerDetach a b)
  assume u: "unbound s"
  have "unbound ((close m s)\<lparr> debuggee := None \<rparr>)" for m
    using unbound_close [OF u, of m] by (simp add: unbound_def)
  with u DebuggerDetach show ?thesis
    by (auto simp: onDebuggerDetach_def unbound_def split: option.split)
next
  case WsClosed
  assume "unbound s"
  then have "unbound (s\<lparr> wsOpen := False \<rparr>)" by (simp add: unbound_def)
  with WsClosed show ?thesis by (simp add: unbound_onClose)
qed (simp_all add: unbound_close unbound_onMessage unbound_settle onTabCreated_def
      onTabRemoved_def unbound_def [of s])

lemma unbound_run: "unbound s \<Longrightarrow> \<not> list_ex selects evs \<Longrightarrow> unbound (run evs s)"
  by (induction evs arbitrary: s) (simp_all add: unbound_step)

lemma unbound_init: "unbound init"
  by (simp add: unbound_def init_def)

section \<open>The claims\<close>

subsection \<open>C1: commands before a target is bound\<close>

text \<open>
  As stated, C1 fails. The guard of \<open>_handleCommand\<close> reads \<open>this._debuggee.tabId\<close>, which
  \<open>setTabId\<close> writes; it does not wait for \<open>attachToTab\<close>. Below, the tab 5 is selected,
  \<open>attachToTab\<close> (request 1) has attached and still waits for \<open>Target.getTargetInfo\<close>, and a
  \<open>forwardCDPCommand\<close> (request 2) is forwarded and answered with the backend's result.
\<close>

theorem C1_counterexample:
  "trace (run [SetTabId 5,
               WsMessage (Command \<lparr> cmd_id = 1, cmd_method = ''attachToTab'', cmd_params = None \<rparr>),
               Settle 1 (Resolved (V_Any None)),
               WsMessage (Command \<lparr> cmd_id = 2, cmd_method = ''forwardCDPCommand'',
                 cmd_params = Some (JObj [(''method'', JStr ''Page.enable'')]) \<rparr>),
               Settle 2 (Resolved (V_Any (Some (JObj []))))] init)
     = [Fx_TabsQuery, Fx_Attach (Some 5),
        Fx_SendCommand \<lparr> d_tabId = Some 5, d_sessionId = None \<rparr> getTargetInfo None,
        Fx_SendCommand \<lparr> d_tabId = Some 5, d_sessionId = None \<rparr> (Some (JStr ''Page.enable'')) None,
        Fx_Send (Response \<lparr> resp_id = 2, resp_result = Some (JObj []), resp_error = None \<rparr>)]
   \<and> pending (run [SetTabId 5,
               WsMessage (Command \<lparr> cmd_id = 1, cmd_method = ''attachToTab'', cmd_params = None \<rparr>),
               Settle 1 (Resolved (V_Any None)),
               WsMessage (Command \<lparr> cmd_id = 2, cmd_method = ''forwardCDPCommand'',
                 cmd_params = Some (JObj [(''method'', JStr ''Page.enable'')]) \<rparr>),
               Settle 2 (Resolved (V_Any (Some (JObj []))))] init)
     = [K_Query, K_BindInfo 1]"
  by (simp add: run_defs)

text \<open>
  C1 (amended). For every session and every inbound \<open>forwardCDPCommand\<close> message, if no primary
  tab has been selected for the session (\<open>this._debuggee.tabId\<close> is unset or 0), the command is
  not forwarded to the backend: nothing is suspended, and the only effect is the response
  with the not-ready error telling the caller to select a tab first. In every run in which
  \<open>setTabId\<close> is never called, no command is sent to the backend and every response is that
  error.
\<close>

theorem C1_not_ready_without_tab:
  "(\<not> tnum (debuggee s) \<and> cmd_method m = ''forwardCDPCommand'' \<longrightarrow>
      pending (handleCommand m s) = pending s
      \<and> trace (handleCommand m s) =
          (if wsOpen s
           then trace s @ [Fx_Send (Response \<lparr> resp_id = cmd_id m, resp_result = None,
                                              resp_error = Some NoTabConnected \<rparr>)]
           else trace s))
   \<and> (\<not> list_ex selects evs \<longrightarrow>
        debuggee (run evs init) = None
        \<and> (\<forall>d c p. Fx_SendCommand d c p \<notin> set (trace (run evs init)))
        \<and> (\<forall>r. Fx_Send (Response r) \<in> set (trace (run evs init)) \<longrightarrow>
              resp_result r = None \<and> resp_error r = Some NoTabConnected))"
proof -
  have "list_all idleFx (trace (run evs init)) \<and> debuggee (run evs init) = None"
    if "\<not> list_ex selects evs"
    using unbound_run [OF unbound_init that] by (simp add: unbound_def)
  then have "\<not> list_ex selects evs \<longrightarrow>
        debuggee (run evs init) = None
        \<and> (\<forall>d c p. Fx_SendCommand d c p \<notin> set (trace (run evs init)))
        \<and> (\<forall>r. Fx_Send (Response r) \<in> set (trace (run evs init)) \<longrightarrow>
              resp_result r = None \<and> resp_error r = Some NoTabConnected)"
    by (force simp: list_all_iff)
  then show ?thesis
    by (simp add: handleCommand_def respond_def sendMessage_def emit_def)
qed

text \<open>
  On the fresh session: \<open>attachToTab\<close> waits for a tab and the forwarded command is refused.
\<close>

theorem C1_witness:
  "\<not> tnum (debuggee init)
   \<and> \<not> list_ex selects
        [WsMessage (Command \<lparr> cmd_id = 1, cmd_method = ''attachToTab'', cmd_params = None \<rparr>),
         WsMessage (Command \<lparr> cmd_id = 2, cmd_method = ''forwardCDPCommand'',
                 cmd_params = Some (JObj [(''method'', JStr ''Page.enable'')]) \<rparr>)]
   \<and> trace (run
        [WsMessage (Command \<lparr> cmd_id = 1, cmd_method = ''attachToTab'', cmd_params = None \<rparr>),
         WsMessage (Command \<lparr> cmd_id = 2, cmd_method = ''forwardCDPCommand'',
                 cmd_params = Some (JObj [(''method'', JStr ''Page.enable'')]) \<rparr>)] init)
     = [Fx_Send (Response \<lparr> resp_id = 2, resp_result = None, resp_error = Some NoTabConnected \<rparr>)]
   \<and> trace (handleCommand \<lparr> cmd_id = 2, cmd_method = ''forwardCDPCommand'',
                 cmd_params = Some (JObj [(''method'', JStr ''Page.enable'')]) \<rparr> init)
     = [Fx_Send (Response \<lparr> resp_id = 2, resp_result = None, resp_error = Some NoTabConnected \<rparr>)]"
  using C1_not_ready_without_tab [of init "\<lparr> cmd_id = 2, cmd_method = ''forwardCDPCommand'',
                 cmd_params = Some (JObj [(''method'', JStr ''Page.enable'')]) \<rparr>"
        "[WsMessage (Command \<lparr> cmd_id = 1, cmd_method = ''attachToTab'', cmd_params = None \<rparr>),
         WsMessage (Command \<lparr> cmd_id = 2, cmd_method = ''forwardCDPCommand'',
                 cmd_params = Some (JObj [(''method'', JStr ''Page.enable'')]) \<rparr>)]"]
  by (simp add: run_defs)

subsection \<open>C2: the debuggee a forwarded command is sent to\<close>




subsection \<open>C3: the synthesized \<open>Target.attachedToTarget\<close>\<close>

text \<open>
  As stated, C3 fails. The child's descriptor has the browser context "CTX-CHILD", the
  primary tab's current descriptor "CTX-MAIN": the event carries "CTX-MAIN".
\<close>

theorem C3_counterexample:
  "last (trace (run [SetTabId 1,
       TabCreated \<lparr> tab_id = Some 7, tab_openerTabId = Some 1, tab_url = Some ''http://c'',
                    tab_title = None \<rparr>,
       Settle 1 (Resolved (V_Any None)),
       Settle 1 (Resolved (V_Any None)),
       Settle 1 (Resolved (V_Any (Some (JObj [(''targetInfo'',
          JObj [(''targetId'', JStr ''T7''), (''browserContextId'', JStr ''CTX-CHILD'')])])))),
       Settle 1 (Resolved (V_Tab (Some \<lparr> tab_id = Some 7, tab_openerTabId = Some 1,
                    tab_url = Some ''http://c'', tab_title = None \<rparr>))),
       Settle 1 (Resolved (V_Any (Some (JObj [(''targetInfo'',
          JObj [(''targetId'', JStr ''T1''), (''browserContextId'', JStr ''CTX-MAIN'')])]))))] init))
   = Fx_Send (AttachedToTarget ''tab-7''
       \<lparr> ai_spread = JObj [(''targetId'', JStr ''T7''), (''browserContextId'', JStr ''CTX-CHILD'')],
         ai_targetId = JStr ''T7'', ai_type = ''page'', ai_url = JStr ''http://c'',
         ai_title = JStr [], ai_openerId = Some (JStr ''T1''),
         ai_browserContextId = Some (JStr ''CTX-MAIN'') \<rparr>)"
  by (simp add: run_defs show_defs js_or_def or_else_def)

text \<open>
  C3 (amended). For every child whose attach attempt reaches its end, the synthesized
  \<open>Target.attachedToTarget\<close> carries as \<open>openerId\<close> the target identifier recorded for the
  primary tab or, when none was recorded, the one of the primary tab's current descriptor
  (a target identifier, never the tab identifier); and as \<open>browserContextId\<close> the one of the
  primary tab's current descriptor, the child's own being used only when the primary tab's
  is missing. The recorded identifier is the one of the descriptor \<open>attachToTab\<close> received.
\<close>

theorem C3_attached_event_fields:
  "(wsOpen s \<longrightarrow>
     (\<exists>info. resume (K_ChildMain t ti tb actualTargetId rest) (Resolved (V_Any res)) s =
                  Some (sweep rest (emit (Fx_Send (AttachedToTarget (tab_session t) info)) s))
           \<and> ai_openerId info =
               (if truthy (mainTabTargetId s) then mainTabTargetId s
                else jget ''targetId'' (jget ''targetInfo'' res))
           \<and> ai_browserContextId info =
               (if truthy (jget ''browserContextId'' (jget ''targetInfo'' res))
                then jget ''browserContextId'' (jget ''targetInfo'' res)
                else jget ''browserContextId'' (Some ti))))
   \<and> (\<exists>s'. resume (K_BindInfo i) (Resolved (V_Any bound)) s = Some s'
          \<and> mainTabTargetId s' =
              (if truthy (jget ''targetId'' (jget ''targetInfo'' bound))
               then jget ''targetId'' (jget ''targetInfo'' bound)
               else mainTabTargetId s))"
proof -
  let ?main = "jget ''targetInfo'' res"
  let ?info = "\<lparr> ai_spread = ti, ai_targetId = actualTargetId, ai_type = ''page'',
       ai_url = or_else (js_or (map_option JStr (tab_url tb)) (jget ''url'' (Some ti))) (JStr []),
       ai_title = or_else (js_or (map_option JStr (tab_title tb)) (jget ''title'' (Some ti))) (JStr []),
       ai_openerId = js_or (mainTabTargetId s) (jget ''targetId'' ?main),
       ai_browserContextId =
         js_or (jget ''browserContextId'' ?main) (jget ''browserContextId'' (Some ti)) \<rparr>"
  have "resume (K_ChildMain t ti tb actualTargetId rest) (Resolved (V_Any res)) s =
          Some (sweep rest (emit (Fx_Send (AttachedToTarget (tab_session t) ?info)) s))"
    if "wsOpen s"
    using that by (simp add: Let_def sendMessage_def)
  moreover have "ai_openerId ?info =
      (if truthy (mainTabTargetId s) then mainTabTargetId s else jget ''targetId'' ?main)"
    by (simp add: js_or_def)
  moreover have "ai_browserContextId ?info =
      (if truthy (jget ''browserContextId'' ?main) then jget ''browserContextId'' ?main
       else jget ''browserContextId'' (Some ti))"
    by (simp add: js_or_def)
  ultimately have first: "wsOpen s \<longrightarrow>
     (\<exists>info. resume (K_ChildMain t ti tb actualTargetId rest) (Resolved (V_Any res)) s =
                  Some (sweep rest (emit (Fx_Send (AttachedToTarget (tab_session t) info)) s))
           \<and> ai_openerId info =
               (if truthy (mainTabTargetId s) then mainTabTargetId s
                else jget ''targetId'' (jget ''targetInfo'' res))
           \<and> ai_browserContextId info =
               (if truthy (jget ''browserContextId'' (jget ''targetInfo'' res))
                then jget ''browserContextId'' (jget ''targetInfo'' res)
                else jget ''browserContextId'' (Some ti)))"
    by blast
  have second: "\<exists>s'. resume (K_BindInfo i) (Resolved (V_Any bound)) s = Some s'
          \<and> mainTabTargetId s' =
              (if truthy (jget ''targetId'' (jget ''targetInfo'' bound))
               then jget ''targetId'' (jget ''targetInfo'' bound)
               else mainTabTargetId s)"
    by (auto simp: Let_def respond_def sendMessage_def emit_def split: option.split)
  from first second show ?thesis by (rule conjI)
qed

text \<open>
  The primary tab was recorded as "T1"; its current descriptor says "T1-now" and "CTX-MAIN";
  the child's own descriptor says "CTX-CHILD".
\<close>

theorem C3_witness:
  "wsOpen (init\<lparr> mainTabTargetId := Some (JStr ''T1'') \<rparr>)
   \<and> (\<exists>info. resume (K_ChildMain 7 (JObj [(''browserContextId'', JStr ''CTX-CHILD'')])
                  \<lparr> tab_id = Some 7, tab_openerTabId = Some 1, tab_url = None, tab_title = None \<rparr>
                  (JStr ''tab-7'') [])
                (Resolved (V_Any (Some (JObj [(''targetInfo'',
                   JObj [(''targetId'', JStr ''T1-now''), (''browserContextId'', JStr ''CTX-MAIN'')])]))))
                (init\<lparr> mainTabTargetId := Some (JStr ''T1'') \<rparr>) =
              Some (emit (Fx_Send (AttachedToTarget ''tab-7'' info))
                     (init\<lparr> mainTabTargetId := Some (JStr ''T1'') \<rparr>))
         \<and> ai_openerId info = Some (JStr ''T1'')
         \<and> ai_browserContextId info = Some (JStr ''CTX-MAIN''))"
  using C3_attached_event_fields [of "init\<lparr> mainTabTargetId := Some (JStr ''T1'') \<rparr>" 7
      "JObj [(''browserContextId'', JStr ''CTX-CHILD'')]"
      "\<lparr> tab_id = Some 7, tab_openerTabId = Some 1, tab_url = None, tab_title = None \<rparr>"
      "JStr ''tab-7''" "[]"
      "Some (JObj [(''targetInfo'',
         JObj [(''targetId'', JStr ''T1-now''), (''browserContextId'', JStr ''CTX-MAIN'')])])"
      1 None]
  by (simp add: init_def show_defs)

subsection \<open>C4: children and the map of target identifiers\<close>




subsection \<open>C5: after close\<close>

text \<open>
  C5. Once the session is closed, the children set and the map of target identifiers are
  to stay empty and an attach attempt still in flight is to discard its result. The code
  checks \<open>_closed\<close> on entry to \<open>_attachToNewTab\<close> only. Below, the attach of the child tab 7
  is in flight when the socket closes; when it resolves, the tab is added to \<open>_childTabs\<close>,
  commands are sent to the backend, and the map receives an entry: the session is closed
  with a child recorded in both containers, attached and never detached.
\<close>

theorem C5_attach_resumes_after_close:
  "closed (run [SetTabId 1,
       TabCreated \<lparr> tab_id = Some 7, tab_openerTabId = Some 1, tab_url = None, tab_title = None \<rparr>,
       Settle 1 (Resolved (V_Any None)),
       WsClosed,
       Settle 1 (Resolved (V_Any None)),
       Settle 1 (Resolved (V_Any (Some (JObj [(''targetInfo'', JObj [(''targetId'', JStr ''T7'')])])))),
       Settle 1 (Resolved (V_Tab (Some \<lparr> tab_id = Some 7, tab_openerTabId = Some 1,
                    tab_url = None, tab_title = None \<rparr>)))] init)
   \<and> childTabs (run [SetTabId 1,
       TabCreated \<lparr> tab_id = Some 7, tab_openerTabId = Some 1, tab_url = None, tab_title = None \<rparr>,
       Settle 1 (Resolved (V_Any None)),
       WsClosed,
       Settle 1 (Resolved (V_Any None)),
       Settle 1 (Resolved (V_Any (Some (JObj [(''targetInfo'', JObj [(''targetId'', JStr ''T7'')])])))),
       Settle 1 (Resolved (V_Tab (Some \<lparr> tab_id = Some 7, tab_openerTabId = Some 1,
                    tab_url = None, tab_title = None \<rparr>)))] init) = [7]
   \<and> tabIdToTargetId (run [SetTabId 1,
       TabCreated \<lparr> tab_id = Some 7, tab_openerTabId = Some 1, tab_url = None, tab_title = None \<rparr>,
       Settle 1 (Resolved (V_Any None)),
       WsClosed,
       Settle 1 (Resolved (V_Any None)),
       Settle 1 (Resolved (V_Any (Some (JObj [(''targetInfo'', JObj [(''targetId'', JStr ''T7'')])])))),
       Settle 1 (Resolved (V_Tab (Some \<lparr> tab_id = Some 7, tab_openerTabId = Some 1,
                    tab_url = None, tab_title = None \<rparr>)))] init) (Some 7) = Some (JStr ''T7'')
   \<and> trace (run [SetTabId 1,
       TabCreated \<lparr> tab_id = Some 7, tab_openerTabId = Some 1, tab_url = None, tab_title = None \<rparr>,
       Settle 1 (Resolved (V_Any None)),
       WsClosed,
       Settle 1 (Resolved (V_Any None)),
       Settle 1 (Resolved (V_Any (Some (JObj [(''targetInfo'', JObj [(''targetId'', JStr ''T7'')])])))),
       Settle 1 (Resolved (V_Tab (Some \<lparr> tab_id = Some 7, tab_openerTabId = Some 1,
                    tab_url = None, tab_title = None \<rparr>)))] init)
     = [Fx_TabsQuery, Fx_SetTimeout 7, Fx_Attach (Some 7),
        Fx_RemoveListeners, Fx_Detach (Some 1), Fx_OnClose,
        Fx_SendCommand \<lparr> d_tabId = Some 7, d_sessionId = None \<rparr> getTargetInfo None,
        Fx_TabsGet 7,
        Fx_SendCommand \<lparr> d_tabId = Some 1, d_sessionId = None \<rparr> getTargetInfo None]"
  by (simp add: run_defs or_else_def)

subsection \<open>C6: attaching to the primary tab\<close>

text \<open>
  As stated, C6 fails. Two \<open>attachToTab\<close> commands call \<open>chrome.debugger.attach\<close> on the
  primary tab twice.
\<close>

theorem C6_counterexample:
  "trace (run [SetTabId 1,
       WsMessage (Command \<lparr> cmd_id = 1, cmd_method = ''attachToTab'', cmd_params = None \<rparr>),
       WsMessage (Command \<lparr> cmd_id = 2, cmd_method = ''attachToTab'', cmd_params = None \<rparr>)] init)
     = [Fx_TabsQuery, Fx_Attach (Some 1), Fx_Attach (Some 1)]"
  by (simp add: run_defs)

text \<open>
  C6 (amended). For every session and every tab, \<open>chrome.debugger.attach\<close> is called on the
  tab at most once for each \<open>attachToTab\<close> command received and once for each time the host
  reports the tab (as a created tab, or in the answer to \<open>chrome.tabs.query\<close>): on the primary
  tab at most once when \<open>attachToTab\<close> is sent once and child discovery never reports the
  primary tab itself.
\<close>

theorem C6_attach_once_per_bind:
  "count_list (trace (run evs init)) (Fx_Attach (Some t)) \<le> binds evs + discovered t evs"
proof -
  have "attaches t (run evs init) \<le> potential t (run evs init)"
    by (simp add: potential_def)
  also have "\<dots> \<le> potential t init + binds evs + discovered t evs"
    by (rule potential_run)
  also have "potential t init = 0"
    by (simp add: potential_def attaches_def init_def)
  finally show ?thesis by (simp add: attaches_def)
qed

text \<open>One \<open>attachToTab\<close> command, one attach on the primary tab 1.\<close>

theorem C6_witness:
  "count_list (trace (run [SetTabId 1,
       WsMessage (Command \<lparr> cmd_id = 1, cmd_method = ''attachToTab'', cmd_params = None \<rparr>),
       Settle 1 (Resolved (V_Any None))] init)) (Fx_Attach (Some 1)) = 1
   \<and> binds [SetTabId 1,
       WsMessage (Command \<lparr> cmd_id = 1, cmd_method = ''attachToTab'', cmd_params = None \<rparr>),
       Settle 1 (Resolved (V_Any None))] = 1
   \<and> discovered 1 [SetTabId 1,
       WsMessage (Command \<lparr> cmd_id = 1, cmd_method = ''attachToTab'', cmd_params = None \<rparr>),
       Settle 1 (Resolved (V_Any None))] = 0"
  using C6_attach_once_per_bind [of "[SetTabId 1,
       WsMessage (Command \<lparr> cmd_id = 1, cmd_method = ''attachToTab'', cmd_params = None \<rparr>),
       Settle 1 (Resolved (V_Any None))]" 1]
  by (simp add: run_defs binds_def discovered_def)

subsection \<open>C7: teardown\<close>



subsection \<open>C8: detaching a known child\<close>

text \<open>
  C8. When a forwarded \<open>Target.detachFromTarget\<close> names in its parameters the session
  identifier "tab-N" of a known child (a primary tab being bound), the relay calls
  \<open>chrome.debugger.detach\<close> on the child's tab and sends no command; when the detach has
  resolved, at whatever later state, the child is removed from the children set and from
  the map of target identifiers and the response is the empty object. With nothing in
  between, the child is in neither container, nothing stays suspended, and the log has
  grown by the detach and the response.
\<close>

theorem C8_detach_known_child:
  assumes tab: "tnum (debuggee s)"
    and fwd: "cmd_method m = ''forwardCDPCommand''"
    and meth: "jget ''method'' (cmd_params m) = detachFromTarget"
    and sid: "jget ''sessionId'' (jget ''params'' (cmd_params m)) = Some (JStr (tab_session c))"
    and child: "c \<in> set (childTabs s)"
  shows "handleCommand m s = park (K_Detach (cmd_id m) c) (emit (Fx_Detach (Some c)) s)
       \<and> resume (K_Detach (cmd_id m) c) (Resolved v) s' =
           Some (respond (cmd_id m) (Returned (Some (JObj [])))
                  (s'\<lparr> childTabs := removeAll c (childTabs s'),
                       tabIdToTargetId := (tabIdToTargetId s')(Some c := None) \<rparr>))
       \<and> c \<notin> set (childTabs (settle (length (pending s)) (Resolved v) (handleCommand m s)))
       \<and> tabIdToTargetId (settle (length (pending s)) (Resolved v) (handleCommand m s)) (Some c) = None
       \<and> pending (settle (length (pending s)) (Resolved v) (handleCommand m s)) = pending s
       \<and> trace (settle (length (pending s)) (Resolved v) (handleCommand m s)) =
           trace s @ Fx_Detach (Some c)
             # (if wsOpen s
                then [Fx_Send (Response \<lparr> resp_id = cmd_id m, resp_result = Some (JObj []),
                                            resp_error = None \<rparr>)]
                else [])"
proof -
  from meth obtain fs where p: "cmd_params m = Some (JObj fs)"
    by (auto simp: detachFromTarget_def dest: jget_Some_obj)
  from sid obtain gs where q: "jget ''params'' (cmd_params m) = Some (JObj gs)"
    by (auto dest: jget_Some_obj)
  have fc: "forwardCDPCommand (cmd_id m) (cmd_params m) s =
              park (K_Detach (cmd_id m) c) (emit (Fx_Detach (Some c)) s)"
    using meth sid child p q
    by (simp add: forwardCDPCommand_def Let_def tabPrefix_tab_session)
  have hc: "handleCommand m s = park (K_Detach (cmd_id m) c) (emit (Fx_Detach (Some c)) s)"
    using tab fwd fc by (simp add: handleCommand_def)
  show ?thesis
    unfolding hc
    by (simp add: settle_def park_def emit_def respond_def sendMessage_def)
qed

theorem C8_witness:
  "tnum (debuggee (run [SetTabId 1,
       TabCreated \<lparr> tab_id = Some 7, tab_openerTabId = Some 1, tab_url = None, tab_title = None \<rparr>,
       Settle 1 (Resolved (V_Any None)), Settle 1 (Resolved (V_Any None))] init))
   \<and> 7 \<in> set (childTabs (run [SetTabId 1,
       TabCreated \<lparr> tab_id = Some 7, tab_openerTabId = Some 1, tab_url = None, tab_title = None \<rparr>,
       Settle 1 (Resolved (V_Any None)), Settle 1 (Resolved (V_Any None))] init))
   \<and> trace (run [SetTabId 1,
       TabCreated \<lparr> tab_id = Some 7, tab_openerTabId = Some 1, tab_url = None, tab_title = None \<rparr>,
       Settle 1 (Resolved (V_Any None)), Settle 1 (Resolved (V_Any None)),
       WsMessage (Command \<lparr> cmd_id = 9, cmd_method = ''forwardCDPCommand'',
          cmd_params = Some (JObj [(''method'', JStr ''Target.detachFromTarget''),
                                   (''params'', JObj [(''sessionId'', JStr ''tab-7'')])]) \<rparr>),
       Settle 2 (Resolved (V_Any None))] init) =
     [Fx_TabsQuery, Fx_SetTimeout 7, Fx_Attach (Some 7),
      Fx_SendCommand \<lparr> d_tabId = Some 7, d_sessionId = None \<rparr> getTargetInfo None,
      Fx_Detach (Some 7),
      Fx_Send (Response \<lparr> resp_id = 9, resp_result = Some (JObj []), resp_error = None \<rparr>)]
   \<and> childTabs (run [SetTabId 1,
       TabCreated \<lparr> tab_id = Some 7, tab_openerTabId = Some 1, tab_url = None, tab_title = None \<rparr>,
       Settle 1 (Resolved (V_Any None)), Settle 1 (Resolved (V_Any None)),
       WsMessage (Command \<lparr> cmd_id = 9, cmd_method = ''forwardCDPCommand'',
          cmd_params = Some (JObj [(''method'', JStr ''Target.detachFromTarget''),
                                   (''params'', JObj [(''sessionId'', JStr ''tab-7'')])]) \<rparr>),
       Settle 2 (Resolved (V_Any None))] init) = []"
  using C8_detach_known_child [of "run [SetTabId 1,
       TabCreated \<lparr> tab_id = Some 7, tab_openerTabId = Some 1, tab_url = None, tab_title = None \<rparr>,
       Settle 1 (Resolved (V_Any None)), Settle 1 (Resolved (V_Any None))] init"
       "\<lparr> cmd_id = 9, cmd_method = ''forwardCDPCommand'',
          cmd_params = Some (JObj [(''method'', JStr ''Target.detachFromTarget''),
                                   (''params'', JObj [(''sessionId'', JStr ''tab-7'')])]) \<rparr>"
       7 "V_Any None" init]
  by (simp add: run_defs show_defs parseInt_def parse_unsigned_def digit_val_def is_space_def)

subsection \<open>C9: the response envelope\<close>




subsection \<open>C10: a detach notification without a tab, before a tab is selected\<close>

text \<open>
  C10. If a detach notification of the debugger whose source has no tab identifier arrives
  while no primary tab is bound, \<open>source.tabId === this._debuggee.tabId\<close> compares
  \<open>undefined\<close> with \<open>undefined\<close>, the notification is taken for the detach of the primary
  tab, and the whole session is torn down: the socket is closed with the reason, the
  listeners are removed, the children and an absent primary debuggee are detached and the
  close notification fires, although nothing was ever attached.
\<close>

theorem C10_unbound_detach_tears_down:
  assumes "listening s" and "\<not> closed s" and "debuggee s = None"
  shows "closed (step (DebuggerDetach None reason) s)
       \<and> \<not> listening (step (DebuggerDetach None reason) s)
       \<and> childTabs (step (DebuggerDetach None reason) s) = []
       \<and> trace (step (DebuggerDetach None reason) s) =
           trace s @ [Fx_WsClose (''Debugger detached: '' @ reason), Fx_RemoveListeners]
             @ map (\<lambda>c. Fx_Detach (Some c)) (childTabs s) @ [Fx_Detach None, Fx_OnClose]"
  using assms by (simp add: onDebuggerDetach_def close_def onClose_open emit_def)

text \<open>On the fresh session, where no attach was ever issued.\<close>

theorem C10_witness:
  "listening init \<and> \<not> closed init \<and> debuggee init = None
   \<and> closed (step (DebuggerDetach None ''target_closed'') init)
   \<and> trace (step (DebuggerDetach None ''target_closed'') init) =
       [Fx_WsClose ''Debugger detached: target_closed'', Fx_RemoveListeners, Fx_Detach None,
        Fx_OnClose]"
  using C10_unbound_detach_tears_down [of init "''target_closed''"]
  by (simp add: init_def)

end
